theory Spec2Isabelle
  imports Main
begin

section \<open>Strings\<close>

text \<open>
  Go strings are byte sequences; \<open>string\<close> is the list of their bytes.
  \<open>strings.ToLower\<close> belongs to the standard library (it folds every Unicode letter):
  the functions that call it take it as the argument \<open>ToLower\<close>.
\<close>

text \<open>\<open>strings.HasPrefix(s, prefix)\<close>: \<open>len(s) >= len(prefix) && s[:len(prefix)] == prefix\<close>.\<close>

definition HasPrefix :: "string \<Rightarrow> string \<Rightarrow> bool" where
  "HasPrefix s prefix \<longleftrightarrow> length prefix \<le> length s \<and> take (length prefix) s = prefix"

text \<open>The verb \<open>%d\<close> of \<open>fmt.Sprintf\<close>: a sign and the decimal digits.\<close>

fun digits :: "nat \<Rightarrow> string" where
  "digits n =
     (if n < 10 then [''0123456789'' ! n]
      else digits (n div 10) @ [''0123456789'' ! (n mod 10)])"

definition Itoa :: "int \<Rightarrow> string" where
  "Itoa i = (if i < 0 then CHR ''-'' # digits (nat (- i)) else digits (nat i))"

section \<open>Data\<close>

text \<open>
  The values built with \<open>fmt.Errorf\<close>, one constructor per message, carrying the
  arguments of the format string.
\<close>

datatype error =
    NoBackendForRequest
  | NoMatchForPath string
  | NoMatchForHeader string string
  | ConflictPath string
  | ConflictHeader string string

text \<open>
  \<open>*Backend\<close> and \<open>*BackendRouter\<close> are addresses into the two heaps of \<open>world\<close>.
  A \<open>url.URL\<close> is kept as the text it was parsed from; \<open>ReverseProxy\<close> is the target
  that \<open>httputil.NewSingleHostReverseProxy\<close> was bound to. The field \<open>mux\<close> of a
  Backend is never locked by the program and is left out.
\<close>

type_synonym addr = nat

datatype URL = URL string

record Backend =
  url :: URL
  Alive :: bool
  InUse :: bool
  ReverseProxy :: URL

text \<open>A Go map that may be \<open>nil\<close> is an \<open>option\<close> of a map.\<close>

record BackendRouter =
  host :: string
  port :: int
  maxBackends :: int
  acceptedPaths :: "(string \<rightharpoonup> bool) option"
  acceptedHeaders :: "(string \<rightharpoonup> string) option"
  backends :: "addr list"

text \<open>
  The heaps. Unallocated addresses hold Go's zero value; \<open>backendCount\<close> and
  \<open>routerCount\<close> are the next addresses to be allocated.
\<close>

record world =
  backendAt :: "addr \<Rightarrow> Backend"
  backendCount :: nat
  routerAt :: "addr \<Rightarrow> BackendRouter"
  routerCount :: nat

text \<open>
  The field \<open>port\<close> of LBLight is \<open>lb_port\<close> here (BackendRouter has a \<open>port\<close> too).
  The buckets of \<open>headerToBackendRouter\<close> are held by value: no code of the program
  stores a bucket under two header names.
\<close>

record LBLight =
  lb_port :: int
  pathPrefixToBackendRouter :: "string \<rightharpoonup> addr"
  headerToBackendRouter :: "string \<rightharpoonup> (string \<rightharpoonup> addr)"

definition zero_Backend :: Backend where
  "zero_Backend = \<lparr>url = URL [], Alive = False, InUse = False, ReverseProxy = URL []\<rparr>"

definition zero_BackendRouter :: BackendRouter where
  "zero_BackendRouter =
     \<lparr>host = [], port = 0, maxBackends = 0, acceptedPaths = None, acceptedHeaders = None,
      backends = []\<rparr>"

definition empty_world :: world where
  "empty_world =
     \<lparr>backendAt = (\<lambda>_. zero_Backend), backendCount = 0,
      routerAt = (\<lambda>_. zero_BackendRouter), routerCount = 0\<rparr>"

section \<open>The routing table\<close>

definition NewBackendRouter ::
  "world \<Rightarrow> string \<Rightarrow> int \<Rightarrow> (string \<rightharpoonup> string) option \<Rightarrow> (string \<rightharpoonup> bool) option \<Rightarrow> int
     \<Rightarrow> addr \<times> world" where
  "NewBackendRouter w h p hdrs paths m =
     (let ber = routerCount w in
      (ber, w\<lparr>routerAt := (routerAt w)
                 (ber := \<lparr>host = h, port = p, maxBackends = m, acceptedPaths = paths,
                          acceptedHeaders = hdrs, backends = []\<rparr>),
              routerCount := Suc ber\<rparr>))"

definition NewLBLight :: "int \<Rightarrow> LBLight" where
  "NewLBLight p =
     \<lparr>lb_port = p, pathPrefixToBackendRouter = Map.empty, headerToBackendRouter = Map.empty\<rparr>"

definition GetBackendRouterByExactPathPrefix ::
  "(string \<Rightarrow> string) \<Rightarrow> LBLight \<Rightarrow> string \<Rightarrow> error + addr" where
  "GetBackendRouterByExactPathPrefix ToLower l path =
     (let lowerPath = ToLower path in
      case pathPrefixToBackendRouter l lowerPath of
        Some backend \<Rightarrow> Inr backend
      | None \<Rightarrow> Inl (NoMatchForPath path))"

text \<open>
  A \<open>range\<close> over a Go map visits every key once, in an order the language leaves
  open. Each loop over a map therefore takes the order of the visit as an argument, a
  list \<open>ks\<close> of keys; an entry of \<open>ks\<close> that is not a key of the map is passed over.
  \<open>range_order m ks\<close> says that \<open>ks\<close> is an order Go may choose for \<open>m\<close>.
\<close>

definition range_order :: "('k \<rightharpoonup> 'v) \<Rightarrow> 'k list \<Rightarrow> bool" where
  "range_order m ks \<longleftrightarrow> distinct ks \<and> set ks = dom m"

fun first_prefix_match :: "(string \<rightharpoonup> addr) \<Rightarrow> string \<Rightarrow> string list \<Rightarrow> addr option" where
  "first_prefix_match m lowerPath [] = None"
| "first_prefix_match m lowerPath (prefix # ks) =
     (case m prefix of
        None \<Rightarrow> first_prefix_match m lowerPath ks
      | Some router \<Rightarrow>
          if HasPrefix lowerPath prefix then Some router
          else first_prefix_match m lowerPath ks)"

definition GetBackendRouterByPathPrefix ::
  "(string \<Rightarrow> string) \<Rightarrow> LBLight \<Rightarrow> string list \<Rightarrow> string \<Rightarrow> error + addr" where
  "GetBackendRouterByPathPrefix ToLower l ks path =
     (let lowerPath = ToLower path in
      case first_prefix_match (pathPrefixToBackendRouter l) lowerPath ks of
        Some router \<Rightarrow> Inr router
      | None \<Rightarrow> Inl (NoMatchForPath path))"

definition GetBackendRouterByHeader :: "LBLight \<Rightarrow> string \<Rightarrow> string \<Rightarrow> error + addr" where
  "GetBackendRouterByHeader l headerName headerValue =
     (case headerToBackendRouter l headerName of
        Some headerValues \<Rightarrow>
          (case headerValues headerValue of
             Some headerNameAndValueBackend \<Rightarrow> Inr headerNameAndValueBackend
           | None \<Rightarrow> Inl (NoMatchForHeader headerName headerValue))
      | None \<Rightarrow> Inl (NoMatchForHeader headerName headerValue))"

text \<open>The four loops of \<open>AddBackendRouter\<close>: two that check, two that register.\<close>

fun paths_conflict ::
  "(string \<Rightarrow> string) \<Rightarrow> LBLight \<Rightarrow> (string \<rightharpoonup> bool) \<Rightarrow> string list \<Rightarrow> error option" where
  "paths_conflict ToLower l aps [] = None"
| "paths_conflict ToLower l aps (path # ks) =
     (case aps path of
        None \<Rightarrow> paths_conflict ToLower l aps ks
      | Some _ \<Rightarrow>
          (case GetBackendRouterByExactPathPrefix ToLower l path of
             Inr _ \<Rightarrow> Some (ConflictPath path)
           | Inl _ \<Rightarrow> paths_conflict ToLower l aps ks))"

fun headers_conflict :: "LBLight \<Rightarrow> (string \<rightharpoonup> string) \<Rightarrow> string list \<Rightarrow> error option" where
  "headers_conflict l ahs [] = None"
| "headers_conflict l ahs (header # ks) =
     (case ahs header of
        None \<Rightarrow> headers_conflict l ahs ks
      | Some val \<Rightarrow>
          (case GetBackendRouterByHeader l header val of
             Inr _ \<Rightarrow> Some (ConflictHeader header val)
           | Inl _ \<Rightarrow> headers_conflict l ahs ks))"

fun register_paths :: "LBLight \<Rightarrow> addr \<Rightarrow> (string \<rightharpoonup> bool) \<Rightarrow> string list \<Rightarrow> LBLight" where
  "register_paths l ber aps [] = l"
| "register_paths l ber aps (path # ks) =
     (case aps path of
        None \<Rightarrow> register_paths l ber aps ks
      | Some _ \<Rightarrow>
          register_paths
            (l\<lparr>pathPrefixToBackendRouter := (pathPrefixToBackendRouter l)(path \<mapsto> ber)\<rparr>)
            ber aps ks)"

text \<open>
  In the last loop \<open>specificHeaderMap\<close> is the bucket of the table when the header name
  has one, and the assignment \<open>specificHeaderMap[val] = ber\<close> is then seen through the
  table. When the name has no bucket, the map made by \<open>make\<close> receives the entry and is
  dropped at the end of the iteration: nothing assigns it to
  \<open>l.headerToBackendRouter[header]\<close>.
\<close>

fun register_headers :: "LBLight \<Rightarrow> addr \<Rightarrow> (string \<rightharpoonup> string) \<Rightarrow> string list \<Rightarrow> LBLight" where
  "register_headers l ber ahs [] = l"
| "register_headers l ber ahs (header # ks) =
     (case ahs header of
        None \<Rightarrow> register_headers l ber ahs ks
      | Some val \<Rightarrow>
          (case headerToBackendRouter l header of
             Some specificHeaderMap \<Rightarrow>
               register_headers
                 (l\<lparr>headerToBackendRouter :=
                      (headerToBackendRouter l)(header \<mapsto> specificHeaderMap(val \<mapsto> ber))\<rparr>)
                 ber ahs ks
           | None \<Rightarrow> register_headers l ber ahs ks))"

text \<open>
  \<open>AddBackendRouter\<close> returns the error (\<open>None\<close> is \<open>nil\<close>) and the table as the call
  leaves it. \<open>ks1\<close> to \<open>ks4\<close> are the orders of its four loops.
\<close>

definition AddBackendRouter ::
  "(string \<Rightarrow> string) \<Rightarrow> world \<Rightarrow> LBLight \<Rightarrow> addr
     \<Rightarrow> string list \<Rightarrow> string list \<Rightarrow> string list \<Rightarrow> string list
     \<Rightarrow> error option \<times> LBLight" where
  "AddBackendRouter ToLower w l ber ks1 ks2 ks3 ks4 =
     (case (case acceptedPaths (routerAt w ber) of
              None \<Rightarrow> None
            | Some aps \<Rightarrow> paths_conflict ToLower l aps ks1) of
        Some e \<Rightarrow> (Some e, l)
      | None \<Rightarrow>
          (case (case acceptedHeaders (routerAt w ber) of
                   None \<Rightarrow> None
                 | Some ahs \<Rightarrow> headers_conflict l ahs ks2) of
             Some e \<Rightarrow> (Some e, l)
           | None \<Rightarrow>
               (let l1 = (case acceptedPaths (routerAt w ber) of
                            None \<Rightarrow> l
                          | Some aps \<Rightarrow> register_paths l ber aps ks3);
                    l2 = (case acceptedHeaders (routerAt w ber) of
                            None \<Rightarrow> l1
                          | Some ahs \<Rightarrow> register_headers l1 ber ahs ks4)
                in (None, l2))))"

section \<open>The pool of a BackendRouter\<close>

text \<open>
  \<open>log.Fatalf\<close> writes its message and ends the process with \<open>os.Exit(1)\<close>: a call
  either returns a value or is \<open>ProcessExit\<close>.
\<close>

datatype 'a exec = ProcessExit | Returns 'a

text \<open>
  \<open>url.Parse\<close> belongs to the standard library: \<open>Parse\<close> stands for it, \<open>None\<close> being
  its error. \<open>NewBackend\<close> returns the address of the Backend it allocates.
\<close>

definition NewBackend :: "(string \<Rightarrow> URL option) \<Rightarrow> world \<Rightarrow> string \<Rightarrow> (addr \<times> world) exec" where
  "NewBackend Parse w uri =
     (case Parse uri of
        None \<Rightarrow> ProcessExit
      | Some u \<Rightarrow>
          (let be = backendCount w in
           Returns (be, w\<lparr>backendAt := (backendAt w)
                          (be := \<lparr>url = u, Alive = False, InUse = False, ReverseProxy = u\<rparr>),
                        backendCount := Suc be\<rparr>)))"

text \<open>The first loop of \<open>GetBackend\<close>: the first Backend of the slice that is not in use.\<close>

fun first_spare :: "(addr \<Rightarrow> Backend) \<Rightarrow> addr list \<Rightarrow> addr option" where
  "first_spare h [] = None"
| "first_spare h (be # bes) = (if \<not> InUse (h be) then Some be else first_spare h bes)"

definition GetBackend ::
  "(string \<Rightarrow> URL option) \<Rightarrow> world \<Rightarrow> addr \<Rightarrow> ((error + addr) \<times> world) exec" where
  "GetBackend Parse w ber =
     (case first_spare (backendAt w) (backends (routerAt w ber)) of
        Some be \<Rightarrow>
          Returns (Inr be, w\<lparr>backendAt := (backendAt w)(be := (backendAt w be)\<lparr>InUse := True\<rparr>)\<rparr>)
      | None \<Rightarrow>
          if int (length (backends (routerAt w ber))) \<le> maxBackends (routerAt w ber) then
            (case NewBackend Parse w
                    (''http://'' @ host (routerAt w ber) @ '':'' @ Itoa (port (routerAt w ber))) of
               ProcessExit \<Rightarrow> ProcessExit
             | Returns (be, w') \<Rightarrow>
                 Returns (Inr be,
                   w'\<lparr>routerAt := (routerAt w')
                        (ber := (routerAt w' ber)\<lparr>backends := backends (routerAt w' ber) @ [be]\<rparr>)\<rparr>))
          else Returns (Inl NoBackendForRequest, w))"

text \<open>\<open>n\<close> calls of \<open>GetBackend\<close> on one router, one after the other, with their results.\<close>

fun GetBackend_calls ::
  "(string \<Rightarrow> URL option) \<Rightarrow> addr \<Rightarrow> nat \<Rightarrow> world \<Rightarrow> ((error + addr) list \<times> world) exec" where
  "GetBackend_calls Parse ber 0 w = Returns ([], w)"
| "GetBackend_calls Parse ber (Suc n) w =
     (case GetBackend Parse w ber of
        ProcessExit \<Rightarrow> ProcessExit
      | Returns (r, w') \<Rightarrow>
          (case GetBackend_calls Parse ber n w' of
             ProcessExit \<Rightarrow> ProcessExit
           | Returns (rs, w'') \<Rightarrow> Returns (r # rs, w'')))"

section \<open>The dispatcher\<close>

text \<open>
  Of a request the handler reads \<open>req.URL.Path\<close> and \<open>req.RequestURI\<close>. What the handler
  does to the outside is a list of events: a line logged with \<open>log.Errorf\<close>, or the call
  \<open>backend.ReverseProxy.ServeHTTP(res, req)\<close>, the only place where anything is written to
  \<open>res\<close>. That call is code of the standard library, which holds the target URL and no
  Backend; it returns or it panics, and \<open>forwarding\<close> says which.
\<close>

record Request =
  Path :: string
  RequestURI :: string

datatype forwarding = Completed | Panicked

datatype event = LogErrorf string | ServeHTTP addr forwarding

fun writes_response :: "event \<Rightarrow> bool" where
  "writes_response (LogErrorf _) = False"
| "writes_response (ServeHTTP _ _) = True"

definition getBackend ::
  "(string \<Rightarrow> string) \<Rightarrow> (string \<Rightarrow> URL option) \<Rightarrow> LBLight \<Rightarrow> string list \<Rightarrow> world
     \<Rightarrow> Request \<Rightarrow> ((error + addr) \<times> world) exec" where
  "getBackend ToLower Parse l ks w req =
     (case GetBackendRouterByPathPrefix ToLower l ks (Path req) of
        Inl err \<Rightarrow> Returns (Inl err, w)
      | Inr backendRouter \<Rightarrow> GetBackend Parse w backendRouter)"

definition handleRequestsAndRedirect ::
  "(string \<Rightarrow> string) \<Rightarrow> (string \<Rightarrow> URL option) \<Rightarrow> LBLight \<Rightarrow> string list \<Rightarrow> forwarding
     \<Rightarrow> world \<Rightarrow> Request \<Rightarrow> (event list \<times> world) exec" where
  "handleRequestsAndRedirect ToLower Parse l ks fwd w req =
     (case getBackend ToLower Parse l ks w req of
        ProcessExit \<Rightarrow> ProcessExit
      | Returns (Inl err, w') \<Rightarrow> Returns ([LogErrorf (RequestURI req)], w')
      | Returns (Inr backend, w') \<Rightarrow> Returns ([ServeHTTP backend fwd], w'))"

section \<open>Scenarios\<close>

text \<open>
  The closed examples need a lower-casing function. \<open>ToLower_ascii\<close> maps the bytes \<open>A\<close>
  to \<open>Z\<close> to \<open>a\<close> to \<open>z\<close> and keeps every other byte. On a text of ASCII bytes, as
  every text below is, it answers as \<open>strings.ToLower\<close> does.
\<close>

definition lower_byte :: "char \<Rightarrow> char" where
  "lower_byte c =
     (case map_of (zip ''ABCDEFGHIJKLMNOPQRSTUVWXYZ'' ''abcdefghijklmnopqrstuvwxyz'') c of
        Some d \<Rightarrow> d
      | None \<Rightarrow> c)"

definition ToLower_ascii :: "string \<Rightarrow> string" where
  "ToLower_ascii s = map lower_byte s"

text \<open>
  They need a parser too. \<open>url_Parse_ctl\<close> makes the first test of
  \<open>url.Parse\<close>, which refuses a text that holds an ASCII control byte (below \<open>0x20\<close>, or
  \<open>0x7f\<close>), and accepts every other text. On the texts it is applied to below it
  answers as \<open>url.Parse\<close> does.
\<close>

definition url_Parse_ctl :: "string \<Rightarrow> URL option" where
  "url_Parse_ctl s =
     (if list_ex (\<lambda>c. (of_char c :: nat) < 32 \<or> (of_char c :: nat) = 127) s then None
      else Some (URL s))"

text \<open>Worlds with one router (address 0) and with two routers (addresses 0 and 1).\<close>

definition one_router ::
  "(string \<rightharpoonup> string) option \<Rightarrow> (string \<rightharpoonup> bool) option \<Rightarrow> int \<Rightarrow> world" where
  "one_router hdrs paths m = snd (NewBackendRouter empty_world ''h'' 80 hdrs paths m)"

definition two_routers ::
  "(string \<rightharpoonup> string) option \<Rightarrow> (string \<rightharpoonup> bool) option \<Rightarrow>
   (string \<rightharpoonup> string) option \<Rightarrow> (string \<rightharpoonup> bool) option \<Rightarrow> world" where
  "two_routers hdrs paths hdrs' paths' =
     snd (NewBackendRouter (one_router hdrs paths 1) ''g'' 81 hdrs' paths' 1)"

text \<open>A router for the prefix \<open>/a\<close> with \<open>maxBackends = 1\<close>, and the table it is registered in.\<close>

definition pool_world :: world where
  "pool_world = one_router None (Some [''/a'' \<mapsto> True]) 1"

definition pool_table :: LBLight where
  "pool_table = snd (AddBackendRouter ToLower_ascii pool_world (NewLBLight 443) 0 [''/a''] [] [''/a''] [])"

definition req_a :: Request where
  "req_a = \<lparr>Path = ''/a/x'', RequestURI = ''/a/x?q=1''\<rparr>"

text \<open>
  Requests handled one after the other; each comes with the order in which the table is
  visited for it and with what the forwarding call does.
\<close>

fun serve ::
  "(string \<Rightarrow> string) \<Rightarrow> (string \<Rightarrow> URL option) \<Rightarrow> LBLight
     \<Rightarrow> (string list \<times> forwarding \<times> Request) list \<Rightarrow> world \<Rightarrow> (event list \<times> world) exec" where
  "serve ToLower Parse l [] w = Returns ([], w)"
| "serve ToLower Parse l ((ks, fwd, req) # rest) w =
     (case handleRequestsAndRedirect ToLower Parse l ks fwd w req of
        ProcessExit \<Rightarrow> ProcessExit
      | Returns (evs, w') \<Rightarrow>
          (case serve ToLower Parse l rest w' of
             ProcessExit \<Rightarrow> ProcessExit
           | Returns (evs', w'') \<Rightarrow> Returns (evs @ evs', w'')))"

text \<open>A router that accepts the header \<open>X-Env: prod\<close>, registered in a new table.\<close>

definition header_world :: world where
  "header_world = one_router (Some [''X-Env'' \<mapsto> ''prod'']) None 1"

definition header_table :: "error option \<times> LBLight" where
  "header_table = AddBackendRouter ToLower_ascii header_world (NewLBLight 443) 0 [] [''X-Env''] [] [''X-Env'']"

text \<open>A router that accepts the prefix \<open>/API\<close>, registered in a new table.\<close>

definition upper_world :: world where
  "upper_world = one_router None (Some [''/API'' \<mapsto> True]) 1"

definition upper_table :: "error option \<times> LBLight" where
  "upper_table = AddBackendRouter ToLower_ascii upper_world (NewLBLight 443) 0 [''/API''] [] [''/API''] []"

text \<open>
  Two routers that accept the same header pair, and two that accept the same prefix
  \<open>/A\<close>; in each world router 0 is registered first, then router 1.
\<close>

definition same_header :: world where
  "same_header =
     two_routers (Some [''X-Env'' \<mapsto> ''prod'']) None (Some [''X-Env'' \<mapsto> ''prod'']) None"

definition same_header_first :: "error option \<times> LBLight" where
  "same_header_first =
     AddBackendRouter ToLower_ascii same_header (NewLBLight 443) 0 [] [''X-Env''] [] [''X-Env'']"

definition same_header_second :: "error option \<times> LBLight" where
  "same_header_second =
     AddBackendRouter ToLower_ascii same_header (snd same_header_first) 1 [] [''X-Env''] [] [''X-Env'']"

definition same_upper_path :: world where
  "same_upper_path = two_routers None (Some [''/A'' \<mapsto> True]) None (Some [''/A'' \<mapsto> True])"

definition same_upper_path_first :: "error option \<times> LBLight" where
  "same_upper_path_first =
     AddBackendRouter ToLower_ascii same_upper_path (NewLBLight 443) 0 [''/A''] [] [''/A''] []"

definition same_upper_path_second :: "error option \<times> LBLight" where
  "same_upper_path_second =
     AddBackendRouter ToLower_ascii same_upper_path (snd same_upper_path_first) 1 [''/A''] [] [''/A''] []"




text \<open>Router 0 for the prefix \<open>/api\<close> and router 1 for \<open>/api/v2\<close>, both registered.\<close>

definition api_world :: world where
  "api_world =
     two_routers None (Some [''/api'' \<mapsto> True]) None (Some [''/api/v2'' \<mapsto> True])"

definition api_table :: LBLight where
  "api_table =
     snd (AddBackendRouter ToLower_ascii api_world
            (snd (AddBackendRouter ToLower_ascii api_world (NewLBLight 443) 0 [''/api''] [] [''/api''] []))
            1 [''/api/v2''] [] [''/api/v2''] [])"

text \<open>
  The world after one call of \<open>GetBackend\<close> on the router of \<open>pool_world\<close> (one
  Backend, spare), and after four calls (two Backends, both in use).
\<close>

definition used_world :: world where
  "used_world =
     (case GetBackend_calls url_Parse_ctl 0 1 pool_world of
        ProcessExit \<Rightarrow> pool_world
      | Returns (rs, w) \<Rightarrow> w)"

definition exhausted_world :: world where
  "exhausted_world =
     (case GetBackend_calls url_Parse_ctl 0 4 pool_world of
        ProcessExit \<Rightarrow> pool_world
      | Returns (rs, w) \<Rightarrow> w)"

text \<open>A router whose host holds the control byte \<open>0x7f\<close>.\<close>

definition bad_host_world :: world where
  "bad_host_world =
     snd (NewBackendRouter empty_world (''h'' @ [CHR 0x7F]) 80 None (Some [''/a'' \<mapsto> True]) 1)"

section \<open>The pool: capacity and exclusive use\<close>

text \<open>
  C1. The claim: a Backend is constructed only while \<open>len(backends) < maxBackends\<close>, so
  the pool never holds more than \<open>maxBackends\<close>. The test of \<open>GetBackend\<close> is
  \<open>len(backends) <= maxBackends\<close>: on a router with \<open>maxBackends = 1\<close> three calls
  return the Backends 0, 0 and 1 and leave two Backends in the pool.
\<close>

theorem GetBackend_exceeds_maxBackends:
  "(case GetBackend_calls url_Parse_ctl 0 3 pool_world of
      ProcessExit \<Rightarrow> None
    | Returns (rs, w) \<Rightarrow>
        Some (rs, length (backends (routerAt w 0)), maxBackends (routerAt w 0)))
   = Some ([Inr 0, Inr 0, Inr 1], 2, 1)"
  by code_simp

text \<open>
  C2. The claim: a Backend is in use when \<open>GetBackend\<close> returns it, and two calls with
  no release between them never return the same Backend. The Backend that the first
  call constructs is returned with \<open>InUse = false\<close>, and the second call returns it
  again.
\<close>

theorem GetBackend_returns_new_Backend_twice:
  "(case GetBackend url_Parse_ctl pool_world 0 of
      ProcessExit \<Rightarrow> None
    | Returns (r, w) \<Rightarrow> Some (r, InUse (backendAt w 0))) = Some (Inr 0, False) \<and>
   (case GetBackend_calls url_Parse_ctl 0 2 pool_world of
      ProcessExit \<Rightarrow> None
    | Returns (rs, w) \<Rightarrow> Some (rs, InUse (backendAt w 0))) = Some ([Inr 0, Inr 0], True)"
  by code_simp

section \<open>Registration\<close>

text \<open>
  Two facts about every call of \<open>AddBackendRouter\<close>: a table without buckets, as
  \<open>NewLBLight\<close> makes it, has none after the call either; and a call that returns an
  error leaves the table as it was.
\<close>

lemma register_paths_headers:
  "headerToBackendRouter (register_paths l ber aps ks) = headerToBackendRouter l"
  by (induction ks arbitrary: l) (auto split: option.splits)

lemma register_headers_no_bucket:
  "headerToBackendRouter l = Map.empty \<Longrightarrow> register_headers l ber ahs ks = l"
  by (induction ks) (auto split: option.splits)

lemma AddBackendRouter_headers_stay_empty:
  assumes "headerToBackendRouter l = Map.empty"
  shows "headerToBackendRouter (snd (AddBackendRouter ToLower w l ber ks1 ks2 ks3 ks4)) = Map.empty"
proof -
  have "headerToBackendRouter (register_paths l ber aps ks3) = Map.empty" for aps
    using assms by (simp add: register_paths_headers)
  then show ?thesis
    using assms
    by (auto simp: AddBackendRouter_def Let_def register_headers_no_bucket
        split: option.splits)
qed

lemma AddBackendRouter_error_commits_nothing:
  "fst (AddBackendRouter ToLower w l ber ks1 ks2 ks3 ks4) = Some e \<Longrightarrow>
   snd (AddBackendRouter ToLower w l ber ks1 ks2 ks3 ks4) = l"
  by (auto simp: AddBackendRouter_def Let_def split: option.splits)

text \<open>
  C3. The claim: after a group is registered with a header pair, the lookup of that pair
  returns the group. Registration into a new table returns \<open>nil\<close>, and the lookup of the
  pair fails: the bucket made for the header name is never stored in the table.
\<close>

theorem AddBackendRouter_loses_header_pair:
  "fst header_table = None \<and>
   GetBackendRouterByHeader (snd header_table) ''X-Env'' ''prod''
     = Inl (NoMatchForHeader ''X-Env'' ''prod'')"
  by code_simp

text \<open>
  C5. The claim: a prefix registered as \<open>/API\<close> is found for the path \<open>/api/x\<close>. The
  prefix is stored as it was written, while the path of a request is lower-cased before
  the comparison, so neither \<open>/api/x\<close> nor \<open>/API/x\<close> finds the router.
\<close>

theorem AddBackendRouter_keeps_upper_case_prefix:
  "fst upper_table = None \<and>
   pathPrefixToBackendRouter (snd upper_table) ''/API'' = Some 0 \<and>
   pathPrefixToBackendRouter (snd upper_table) ''/api'' = None \<and>
   GetBackendRouterByPathPrefix ToLower_ascii (snd upper_table) [''/API''] ''/api/x''
     = Inl (NoMatchForPath ''/api/x'') \<and>
   GetBackendRouterByPathPrefix ToLower_ascii (snd upper_table) [''/API''] ''/API/x''
     = Inl (NoMatchForPath ''/API/x'')"
  by code_simp

text \<open>
  C7. The claim: a registration that collides with an earlier one returns a conflict
  and commits nothing. A second router with the header pair of the first is registered
  without an error; so is a second router with the prefix \<open>/A\<close> of the first, and it
  takes the prefix over.
\<close>

theorem AddBackendRouter_misses_conflicts:
  "fst same_header_first = None \<and> fst same_header_second = None \<and>
   fst same_upper_path_first = None \<and> fst same_upper_path_second = None \<and>
   pathPrefixToBackendRouter (snd same_upper_path_first) ''/A'' = Some 0 \<and>
   pathPrefixToBackendRouter (snd same_upper_path_second) ''/A'' = Some 1"
  by code_simp

section \<open>Resolution by path prefix\<close>

lemma first_prefix_match_Some:
  "first_prefix_match m lp ks = Some r \<Longrightarrow>
   \<exists>pre p rest. ks = pre @ p # rest \<and> m p = Some r \<and> HasPrefix lp p \<and>
     (\<forall>q\<in>set pre. m q \<noteq> None \<longrightarrow> \<not> HasPrefix lp q)"
proof (induction ks)
  case Nil
  then show ?case by simp
next
  case (Cons k ks)
  show ?case
  proof (cases "m k \<noteq> None \<and> HasPrefix lp k")
    case True
    with Cons.prems have "m k = Some r" by auto
    with True have "k # ks = [] @ k # ks \<and> m k = Some r \<and> HasPrefix lp k \<and>
      (\<forall>q\<in>set []. m q \<noteq> None \<longrightarrow> \<not> HasPrefix lp q)" by simp
    then show ?thesis by blast
  next
    case False
    with Cons.prems have "first_prefix_match m lp ks = Some r"
      by (auto split: option.splits if_splits)
    from Cons.IH [OF this] obtain pre p rest where
      h: "ks = pre @ p # rest" "m p = Some r" "HasPrefix lp p"
         "\<forall>q\<in>set pre. m q \<noteq> None \<longrightarrow> \<not> HasPrefix lp q" by blast
    from h False have "k # ks = (k # pre) @ p # rest \<and> m p = Some r \<and> HasPrefix lp p \<and>
      (\<forall>q\<in>set (k # pre). m q \<noteq> None \<longrightarrow> \<not> HasPrefix lp q)" by auto
    then show ?thesis by blast
  qed
qed

lemma first_prefix_match_None:
  "first_prefix_match m lp ks = None \<longleftrightarrow> (\<forall>q\<in>set ks. m q \<noteq> None \<longrightarrow> \<not> HasPrefix lp q)"
  by (induction ks) (auto split: option.splits)

lemma api_table_paths:
  "pathPrefixToBackendRouter api_table = [''/api'' \<mapsto> 0, ''/api/v2'' \<mapsto> 1]"
  by (simp add: api_table_def api_world_def two_routers_def one_router_def NewBackendRouter_def
      empty_world_def AddBackendRouter_def NewLBLight_def GetBackendRouterByExactPathPrefix_def
      ToLower_ascii_def lower_byte_def)

text \<open>
  C4, as the code has it. For every order \<open>ks\<close> in which the table may be visited,
  \<open>GetBackendRouterByPathPrefix\<close> returns the router of the first prefix in \<open>ks\<close> that the
  lower-cased path starts with, whatever its length; it returns the error exactly
  when the path starts with no registered prefix.
\<close>

theorem GetBackendRouterByPathPrefix_first_match:
  assumes "range_order (pathPrefixToBackendRouter l) ks"
  shows "case GetBackendRouterByPathPrefix ToLower l ks path of
           Inr router \<Rightarrow>
             \<exists>pre prefix rest. ks = pre @ prefix # rest \<and>
               pathPrefixToBackendRouter l prefix = Some router \<and>
               HasPrefix (ToLower path) prefix \<and>
               (\<forall>q\<in>set pre. \<not> HasPrefix (ToLower path) q)
         | Inl e \<Rightarrow>
             e = NoMatchForPath path \<and>
             (\<forall>q\<in>dom (pathPrefixToBackendRouter l). \<not> HasPrefix (ToLower path) q)"
proof (cases "first_prefix_match (pathPrefixToBackendRouter l) (ToLower path) ks")
  case None
  from assms have "set ks = dom (pathPrefixToBackendRouter l)"
    by (simp add: range_order_def)
  moreover from None have
    "\<forall>q\<in>set ks. pathPrefixToBackendRouter l q \<noteq> None \<longrightarrow> \<not> HasPrefix (ToLower path) q"
    by (simp only: first_prefix_match_None)
  ultimately have "\<forall>q\<in>dom (pathPrefixToBackendRouter l). \<not> HasPrefix (ToLower path) q"
    by auto
  with None show ?thesis
    by (simp add: GetBackendRouterByPathPrefix_def)
next
  case (Some r)
  from first_prefix_match_Some [OF Some] obtain pre p rest where
    h: "ks = pre @ p # rest" "pathPrefixToBackendRouter l p = Some r" "HasPrefix (ToLower path) p"
       "\<forall>q\<in>set pre. pathPrefixToBackendRouter l q \<noteq> None \<longrightarrow> \<not> HasPrefix (ToLower path) q"
    by blast
  from assms h(1) have "set pre \<subseteq> dom (pathPrefixToBackendRouter l)"
    by (auto simp: range_order_def)
  with h(4) have "\<forall>q\<in>set pre. \<not> HasPrefix (ToLower path) q" by blast
  with h Some show ?thesis
    by (auto simp: GetBackendRouterByPathPrefix_def)
qed

text \<open>
  The theorem at the table of \<open>/api\<close> and \<open>/api/v2\<close>, visited in this order, for the
  path \<open>/api/v2/users\<close>.
\<close>

theorem GetBackendRouterByPathPrefix_first_match_witness:
  "range_order (pathPrefixToBackendRouter api_table) [''/api'', ''/api/v2''] \<and>
   (case GetBackendRouterByPathPrefix ToLower_ascii api_table [''/api'', ''/api/v2''] ''/api/v2/users'' of
      Inr router \<Rightarrow>
        \<exists>pre prefix rest. [''/api'', ''/api/v2''] = pre @ prefix # rest \<and>
          pathPrefixToBackendRouter api_table prefix = Some router \<and>
          HasPrefix (ToLower_ascii ''/api/v2/users'') prefix \<and>
          (\<forall>q\<in>set pre. \<not> HasPrefix (ToLower_ascii ''/api/v2/users'') q)
    | Inl e \<Rightarrow>
        e = NoMatchForPath ''/api/v2/users'' \<and>
        (\<forall>q\<in>dom (pathPrefixToBackendRouter api_table).
           \<not> HasPrefix (ToLower_ascii ''/api/v2/users'') q))"
proof -
  have h: "range_order (pathPrefixToBackendRouter api_table) [''/api'', ''/api/v2'']"
    by (auto simp: range_order_def api_table_paths)
  from GetBackendRouterByPathPrefix_first_match [OF h, of "''/api/v2/users''"] h
  show ?thesis by blast
qed

text \<open>
  C4 as claimed fails: with \<open>/api\<close> visited before \<open>/api/v2\<close>, the path
  \<open>/api/v2/users\<close> resolves to router 0 of \<open>/api\<close>, although the longer prefix
  \<open>/api/v2\<close> of router 1 matches too; visited the other way round, the same table
  resolves the same path to router 1.
\<close>

theorem GetBackendRouterByPathPrefix_longest_counterexample:
  "GetBackendRouterByPathPrefix ToLower_ascii api_table [''/api'', ''/api/v2''] ''/api/v2/users'' = Inr 0 \<and>
   pathPrefixToBackendRouter api_table ''/api'' = Some 0 \<and>
   pathPrefixToBackendRouter api_table ''/api/v2'' = Some 1 \<and>
   HasPrefix (ToLower_ascii ''/api/v2/users'') ''/api/v2'' \<and>
   GetBackendRouterByPathPrefix ToLower_ascii api_table [''/api/v2'', ''/api''] ''/api/v2/users'' = Inr 1"
  by code_simp

section \<open>Resolution by header\<close>

text \<open>
  The lookup compares the name and the value as they are written: it returns a router
  exactly when the table holds a bucket for the name and the bucket holds the value.
\<close>

lemma GetBackendRouterByHeader_Inr_iff:
  "GetBackendRouterByHeader l name val = Inr g \<longleftrightarrow>
   (\<exists>bucket. headerToBackendRouter l name = Some bucket \<and> bucket val = Some g)"
  by (auto simp: GetBackendRouterByHeader_def split: option.splits)


section \<open>Construction of a Backend\<close>

lemma first_spare_Some:
  "first_spare h bes = Some be \<Longrightarrow> be \<in> set bes \<and> \<not> InUse (h be)"
  by (induction bes) (auto split: if_splits)

lemma GetBackend_error:
  "GetBackend Parse w ber = Returns (Inl e, w') \<longleftrightarrow>
   e = NoBackendForRequest \<and> w' = w \<and>
   first_spare (backendAt w) (backends (routerAt w ber)) = None \<and>
   maxBackends (routerAt w ber) < int (length (backends (routerAt w ber)))"
  by (auto simp: GetBackend_def NewBackend_def Let_def split: option.splits exec.splits)

lemma GetBackend_keeps_InUse:
  "GetBackend Parse w ber = Returns (r, w') \<Longrightarrow> be < backendCount w \<Longrightarrow>
   InUse (backendAt w be) \<Longrightarrow> InUse (backendAt w' be)"
  by (auto simp: GetBackend_def NewBackend_def Let_def split: option.splits exec.splits if_splits)

lemma GetBackend_marks_old:
  "GetBackend Parse w ber = Returns (Inr be, w') \<Longrightarrow> be < backendCount w \<Longrightarrow>
   InUse (backendAt w' be)"
  by (auto simp: GetBackend_def NewBackend_def Let_def split: option.splits exec.splits if_splits)

text \<open>
  C8, as the code has it. \<open>NewBackend\<close> ends the process exactly when the address is not
  parsed; no error is returned. \<open>GetBackend\<close> ends the process only in a call that finds
  no Backend spare and for a router whose address \<open>http://host:port\<close> is not parsed; and
  it does end the process in such a call when the pool holds fewer than \<open>maxBackends\<close>
  Backends.
\<close>

theorem NewBackend_unparsable_ends_process:
  "(NewBackend Parse w uri = ProcessExit \<longleftrightarrow> Parse uri = None) \<and>
   (GetBackend Parse w ber = ProcessExit \<longrightarrow>
      first_spare (backendAt w) (backends (routerAt w ber)) = None \<and>
      Parse (''http://'' @ host (routerAt w ber) @ '':'' @ Itoa (port (routerAt w ber))) = None) \<and>
   (first_spare (backendAt w) (backends (routerAt w ber)) = None \<and>
    int (length (backends (routerAt w ber))) < maxBackends (routerAt w ber) \<and>
    Parse (''http://'' @ host (routerAt w ber) @ '':'' @ Itoa (port (routerAt w ber))) = None \<longrightarrow>
      GetBackend Parse w ber = ProcessExit)"
proof (intro conjI impI)
  show "NewBackend Parse w uri = ProcessExit \<longleftrightarrow> Parse uri = None"
    by (simp add: NewBackend_def Let_def split: option.splits)
next
  assume "GetBackend Parse w ber = ProcessExit"
  then show "first_spare (backendAt w) (backends (routerAt w ber)) = None"
    by (auto simp: GetBackend_def split: option.splits)
next
  assume "GetBackend Parse w ber = ProcessExit"
  then show
    "Parse (''http://'' @ host (routerAt w ber) @ '':'' @ Itoa (port (routerAt w ber))) = None"
    by (auto simp: GetBackend_def NewBackend_def Let_def split: option.splits if_splits)
next
  assume "first_spare (backendAt w) (backends (routerAt w ber)) = None \<and>
    int (length (backends (routerAt w ber))) < maxBackends (routerAt w ber) \<and>
    Parse (''http://'' @ host (routerAt w ber) @ '':'' @ Itoa (port (routerAt w ber))) = None"
  then show "GetBackend Parse w ber = ProcessExit"
    by (simp add: GetBackend_def NewBackend_def)
qed

lemma bad_uri: "url_Parse_ctl (''http://h'' @ [CHR 0x7F] @ '':80'') = None"
  by (simp add: url_Parse_ctl_def)

text \<open>
  The theorem at an address that holds the control byte \<open>0x7f\<close>, and at the router
  of \<open>bad_host_world\<close>, whose pool is empty and may hold one Backend.
\<close>

theorem NewBackend_unparsable_ends_process_witness:
  "url_Parse_ctl (''http://h'' @ [CHR 0x7F] @ '':80'') = None \<and>
   NewBackend url_Parse_ctl empty_world (''http://h'' @ [CHR 0x7F] @ '':80'') = ProcessExit \<and>
   first_spare (backendAt bad_host_world) (backends (routerAt bad_host_world 0)) = None \<and>
   int (length (backends (routerAt bad_host_world 0))) < maxBackends (routerAt bad_host_world 0) \<and>
   url_Parse_ctl (''http://'' @ host (routerAt bad_host_world 0) @ '':''
      @ Itoa (port (routerAt bad_host_world 0))) = None \<and>
   GetBackend url_Parse_ctl bad_host_world 0 = ProcessExit"
proof -
  have a: "first_spare (backendAt bad_host_world) (backends (routerAt bad_host_world 0)) = None"
    by (simp add: bad_host_world_def NewBackendRouter_def empty_world_def)
  have b: "int (length (backends (routerAt bad_host_world 0)))
             < maxBackends (routerAt bad_host_world 0)"
    by (simp add: bad_host_world_def NewBackendRouter_def empty_world_def)
  have c: "url_Parse_ctl (''http://'' @ host (routerAt bad_host_world 0) @ '':''
             @ Itoa (port (routerAt bad_host_world 0))) = None"
    by (simp add: bad_host_world_def NewBackendRouter_def empty_world_def Itoa_def
        url_Parse_ctl_def)
  from NewBackend_unparsable_ends_process
         [where Parse = url_Parse_ctl and w = empty_world
            and uri = "''http://h'' @ [CHR 0x7F] @ '':80''"]
       NewBackend_unparsable_ends_process
         [where Parse = url_Parse_ctl and w = bad_host_world and ber = 0]
       bad_uri a b c
  show ?thesis by simp
qed

text \<open>
  C8 as claimed fails: a router whose host holds a control byte is registered without
  an error, and the first \<open>GetBackend\<close> on it ends the process.
\<close>

theorem NewBackend_unparsable_counterexample:
  "fst (AddBackendRouter ToLower_ascii bad_host_world (NewLBLight 443) 0 [''/a''] [] [''/a''] []) = None \<and>
   GetBackend url_Parse_ctl bad_host_world 0 = ProcessExit"
  by (simp add: bad_host_world_def NewBackendRouter_def empty_world_def AddBackendRouter_def
      NewLBLight_def GetBackendRouterByExactPathPrefix_def ToLower_ascii_def lower_byte_def
      GetBackend_def NewBackend_def Itoa_def url_Parse_ctl_def)

section \<open>The dispatcher: failures and release\<close>

text \<open>
  C9, as the code has it. When the path resolves to no router, and when the resolved
  router has no spare Backend and may not construct one, the handler logs one line and
  returns: nothing is written to the response, the forwarding call is not made, and
  the world is as before.
\<close>

theorem handleRequestsAndRedirect_failure_only_logs:
  "(GetBackendRouterByPathPrefix ToLower l ks (Path req) = Inl err \<longrightarrow>
      handleRequestsAndRedirect ToLower Parse l ks fwd w req
        = Returns ([LogErrorf (RequestURI req)], w)) \<and>
   (GetBackendRouterByPathPrefix ToLower l ks (Path req) = Inr ber \<and>
    first_spare (backendAt w) (backends (routerAt w ber)) = None \<and>
    maxBackends (routerAt w ber) < int (length (backends (routerAt w ber))) \<longrightarrow>
      handleRequestsAndRedirect ToLower Parse l ks fwd w req
        = Returns ([LogErrorf (RequestURI req)], w))"
proof (intro conjI impI)
  assume "GetBackendRouterByPathPrefix ToLower l ks (Path req) = Inl err"
  then show "handleRequestsAndRedirect ToLower Parse l ks fwd w req
        = Returns ([LogErrorf (RequestURI req)], w)"
    by (simp add: handleRequestsAndRedirect_def getBackend_def)
next
  assume a: "GetBackendRouterByPathPrefix ToLower l ks (Path req) = Inr ber \<and>
    first_spare (backendAt w) (backends (routerAt w ber)) = None \<and>
    maxBackends (routerAt w ber) < int (length (backends (routerAt w ber)))"
  then have "GetBackend Parse w ber = Returns (Inl NoBackendForRequest, w)"
    by (simp add: GetBackend_error)
  with a show "handleRequestsAndRedirect ToLower Parse l ks fwd w req
        = Returns ([LogErrorf (RequestURI req)], w)"
    by (simp add: handleRequestsAndRedirect_def getBackend_def)
qed

text \<open>
  The theorem for a path that no prefix matches, and for a request to the router whose
  two Backends are in use.
\<close>

theorem handleRequestsAndRedirect_failure_only_logs_witness:
  "GetBackendRouterByPathPrefix ToLower_ascii pool_table [''/a''] (Path \<lparr>Path = ''/b'', RequestURI = ''/b''\<rparr>)
     = Inl (NoMatchForPath ''/b'') \<and>
   handleRequestsAndRedirect ToLower_ascii url_Parse_ctl pool_table [''/a''] Completed pool_world
       \<lparr>Path = ''/b'', RequestURI = ''/b''\<rparr>
     = Returns ([LogErrorf ''/b''], pool_world) \<and>
   GetBackendRouterByPathPrefix ToLower_ascii pool_table [''/a''] (Path req_a) = Inr 0 \<and>
   first_spare (backendAt exhausted_world) (backends (routerAt exhausted_world 0)) = None \<and>
   maxBackends (routerAt exhausted_world 0) < int (length (backends (routerAt exhausted_world 0))) \<and>
   handleRequestsAndRedirect ToLower_ascii url_Parse_ctl pool_table [''/a''] Completed exhausted_world req_a
     = Returns ([LogErrorf ''/a/x?q=1''], exhausted_world)"
proof -
  have a: "GetBackendRouterByPathPrefix ToLower_ascii pool_table [''/a'']
             (Path \<lparr>Path = ''/b'', RequestURI = ''/b''\<rparr>) = Inl (NoMatchForPath ''/b'')"
    by code_simp
  have b: "GetBackendRouterByPathPrefix ToLower_ascii pool_table [''/a''] (Path req_a) = Inr 0"
    by code_simp
  have c: "first_spare (backendAt exhausted_world) (backends (routerAt exhausted_world 0)) = None"
    by code_simp
  have d: "maxBackends (routerAt exhausted_world 0)
             < int (length (backends (routerAt exhausted_world 0)))"
    by code_simp
  have e: "RequestURI req_a = ''/a/x?q=1''" by (simp add: req_a_def)
  from handleRequestsAndRedirect_failure_only_logs
         [where ToLower = ToLower_ascii and l = pool_table and ks = "[''/a'']"
            and req = "\<lparr>Path = ''/b'', RequestURI = ''/b''\<rparr>" and err = "NoMatchForPath ''/b''"
            and Parse = url_Parse_ctl and fwd = Completed and w = pool_world and ber = 0]
       handleRequestsAndRedirect_failure_only_logs
         [where ToLower = ToLower_ascii and l = pool_table and ks = "[''/a'']" and req = req_a
            and err = "NoMatchForPath ''/b''" and Parse = url_Parse_ctl and fwd = Completed
            and w = exhausted_world and ber = 0]
       a b c d e
  show ?thesis by simp
qed

text \<open>
  C9 as claimed fails: in both cases the only event of the handler is the logged
  line; no event writes to the response.
\<close>

theorem handleRequestsAndRedirect_silent_counterexample:
  "(case handleRequestsAndRedirect ToLower_ascii url_Parse_ctl pool_table [''/a''] Completed pool_world
           \<lparr>Path = ''/b'', RequestURI = ''/b''\<rparr> of
      ProcessExit \<Rightarrow> None
    | Returns (evs, w) \<Rightarrow> Some (evs, list_ex writes_response evs))
     = Some ([LogErrorf ''/b''], False) \<and>
   (case handleRequestsAndRedirect ToLower_ascii url_Parse_ctl pool_table [''/a''] Completed exhausted_world
           req_a of
      ProcessExit \<Rightarrow> None
    | Returns (evs, w) \<Rightarrow> Some (evs, list_ex writes_response evs))
     = Some ([LogErrorf ''/a/x?q=1''], False)"
  by code_simp

text \<open>
  C6, as the code has it. The handler releases nothing: it ends in the world in which
  \<open>getBackend\<close> left it, whatever the forwarding call does; no Backend that existed
  before the request and was in use is spare after it; and a Backend that existed
  before the request and served it is in use when the handler has returned.
\<close>

theorem handleRequestsAndRedirect_never_releases:
  "case handleRequestsAndRedirect ToLower Parse l ks fwd w req of
     ProcessExit \<Rightarrow> getBackend ToLower Parse l ks w req = ProcessExit
   | Returns (evs, w') \<Rightarrow>
       (\<exists>r. getBackend ToLower Parse l ks w req = Returns (r, w')) \<and>
       (\<forall>be<backendCount w. InUse (backendAt w be) \<longrightarrow> InUse (backendAt w' be)) \<and>
       (\<forall>be<backendCount w. ServeHTTP be fwd \<in> set evs \<longrightarrow> InUse (backendAt w' be))"
proof (cases "getBackend ToLower Parse l ks w req")
  case ProcessExit
  then show ?thesis by (simp add: handleRequestsAndRedirect_def)
next
  case (Returns p)
  obtain r w' where p: "p = (r, w')" by (cases p)
  have keep: "\<forall>be<backendCount w. InUse (backendAt w be) \<longrightarrow> InUse (backendAt w' be)"
  proof (cases "GetBackendRouterByPathPrefix ToLower l ks (Path req)")
    case (Inl e)
    with Returns p show ?thesis by (auto simp: getBackend_def)
  next
    case (Inr ber)
    with Returns p have "GetBackend Parse w ber = Returns (r, w')"
      by (simp add: getBackend_def)
    then show ?thesis by (blast intro: GetBackend_keeps_InUse)
  qed
  show ?thesis
  proof (cases r)
    case (Inl e)
    with Returns p keep show ?thesis by (simp add: handleRequestsAndRedirect_def)
  next
    case (Inr b)
    with Returns p obtain ber where "GetBackend Parse w ber = Returns (Inr b, w')"
      by (auto simp: getBackend_def split: sum.splits)
    then have "b < backendCount w \<longrightarrow> InUse (backendAt w' b)"
      by (blast intro: GetBackend_marks_old)
    with Inr Returns p keep show ?thesis by (simp add: handleRequestsAndRedirect_def)
  qed
qed

text \<open>
  The theorem for a request to the router of \<open>used_world\<close>, whose one Backend is spare,
  with a forwarding call that panics: Backend 0 serves and is left in use.
\<close>

theorem handleRequestsAndRedirect_never_releases_witness:
  "backendCount used_world = 1 \<and> \<not> InUse (backendAt used_world 0) \<and>
   (case handleRequestsAndRedirect ToLower_ascii url_Parse_ctl pool_table [''/a''] Panicked used_world req_a of
      ProcessExit \<Rightarrow> None
    | Returns (evs, w') \<Rightarrow> Some (evs, InUse (backendAt w' 0)))
     = Some ([ServeHTTP 0 Panicked], True) \<and>
   (case handleRequestsAndRedirect ToLower_ascii url_Parse_ctl pool_table [''/a''] Panicked used_world req_a of
      ProcessExit \<Rightarrow> getBackend ToLower_ascii url_Parse_ctl pool_table [''/a''] used_world req_a = ProcessExit
    | Returns (evs, w') \<Rightarrow>
        (\<exists>r. getBackend ToLower_ascii url_Parse_ctl pool_table [''/a''] used_world req_a = Returns (r, w')) \<and>
        (\<forall>be<backendCount used_world.
           InUse (backendAt used_world be) \<longrightarrow> InUse (backendAt w' be)) \<and>
        (\<forall>be<backendCount used_world.
           ServeHTTP be Panicked \<in> set evs \<longrightarrow> InUse (backendAt w' be)))"
proof -
  have a: "backendCount used_world = 1 \<and> \<not> InUse (backendAt used_world 0)"
    by code_simp
  have b: "(case handleRequestsAndRedirect ToLower_ascii url_Parse_ctl pool_table [''/a''] Panicked used_world
                   req_a of
              ProcessExit \<Rightarrow> None
            | Returns (evs, w') \<Rightarrow> Some (evs, InUse (backendAt w' 0)))
           = Some ([ServeHTTP 0 Panicked], True)"
    by code_simp
  from handleRequestsAndRedirect_never_releases
         [where ToLower = ToLower_ascii and Parse = url_Parse_ctl and l = pool_table and ks = "[''/a'']" and fwd = Panicked
            and w = used_world and req = req_a] a b
  show ?thesis by blast
qed

text \<open>
  C6 as claimed fails: after two requests that were both forwarded and have both
  returned, Backend 0 is in use; and after four requests the two Backends of the pool
  are in use for good, so that the fifth request finds no Backend.
\<close>

theorem handleRequestsAndRedirect_release_counterexample:
  "(case serve ToLower_ascii url_Parse_ctl pool_table
           [([''/a''], Completed, req_a), ([''/a''], Completed, req_a)] pool_world of
      ProcessExit \<Rightarrow> None
    | Returns (evs, w) \<Rightarrow> Some (evs, InUse (backendAt w 0)))
     = Some ([ServeHTTP 0 Completed, ServeHTTP 0 Completed], True) \<and>
   (case serve ToLower_ascii url_Parse_ctl pool_table
           [([''/a''], Completed, req_a), ([''/a''], Panicked, req_a),
            ([''/a''], Completed, req_a), ([''/a''], Completed, req_a),
            ([''/a''], Completed, req_a)] pool_world of
      ProcessExit \<Rightarrow> None
    | Returns (evs, w) \<Rightarrow>
        Some (evs, map (\<lambda>be. InUse (backendAt w be)) (backends (routerAt w 0))))
     = Some ([ServeHTTP 0 Completed, ServeHTTP 0 Panicked, ServeHTTP 1 Completed,
              ServeHTTP 1 Completed, LogErrorf ''/a/x?q=1''], [True, True])"
  by code_simp

end
